theory Spec2Isabelle
  imports Main
begin

section \<open>The Spotify playlist of playlist.py\<close>

text \<open>
  The development embeds \<^verbatim>\<open>SpotifyPlaylist.remove\<close> and \<^verbatim>\<open>SpotifyPlaylist.add\<close>
  of \<^verbatim>\<open>src/playlist-bot/playlist.py\<close> (spotify.py holds the same two methods under the
  names \<^verbatim>\<open>remove_tracks\<close> and \<^verbatim>\<open>add_track\<close>).
\<close>

subsection \<open>Constants and exceptions\<close>

text \<open>
  \<^verbatim>\<open>SONG_LIMIT = 1e4\<close> is a Python float; \<open>SONG_LIMIT\<close> is its value, the integer 10000.
  Python compares an int with a float exactly, so the comparisons with the limit are
  comparisons of integers. The subtraction \<^verbatim>\<open>total_tracks - SONG_LIMIT\<close> of line 89 is float
  arithmetic and rounds; it is \<open>minus_SONG_LIMIT\<close> below.
\<close>

definition SONG_LIMIT :: int where
  "SONG_LIMIT = 10000"

text \<open>
  Three exceptions can leave the methods. \<open>SpotifyException\<close> is what the spotipy client
  raises; it carries its message. \<open>TypeError\<close> is what \<^verbatim>\<open>raise PlaylistError(msg)\<close>
  raises: \<^verbatim>\<open>class PlaylistError: pass\<close> (lines 25-27) derives from \<^verbatim>\<open>object\<close> only, so
  calling it with an argument fails (and an instance of it could not be raised either, since
  it is no \<^verbatim>\<open>BaseException\<close>). The wording of Python's TypeError message depends on the
  interpreter version and is left out. \<open>OverflowError\<close> is what the conversion of an int
  to a float raises when the int is too large.
\<close>

datatype exn = SpotifyException string | TypeError | OverflowError

fun str :: "exn \<Rightarrow> string" where
  "str (SpotifyException msg) = msg"
| "str TypeError = ''TypeError''"
| "str OverflowError = ''int too large to convert to float''"

definition raise_PlaylistError :: "string \<Rightarrow> exn" where
  "raise_PlaylistError msg = TypeError"

subsection \<open>The float subtraction of line 89\<close>

text \<open>
  In \<^verbatim>\<open>n = total_tracks - SONG_LIMIT\<close> the int \<^verbatim>\<open>total_tracks\<close> is converted to a double
  (the nearest one, ties to the even mantissa; OverflowError from \<open>2^1024\<close> on), and the
  difference of the two doubles is rounded to the nearest double again. Every double from
  \<open>2^53\<close> on is an integer, and below \<open>2^53\<close> every integer is a double, so all the values
  met here are integers and \<open>n\<close> is kept as an \<open>int\<close>: the integer that the float stands
  for. \<open>bit_length\<close> is Python's \<^verbatim>\<open>int.bit_length\<close>; a double has 53 bits of mantissa.
\<close>

fun bit_length :: "nat \<Rightarrow> nat" where
  "bit_length k = (if k = 0 then 0 else Suc (bit_length (k div 2)))"

definition nearest_double :: "int \<Rightarrow> int" where
  "nearest_double x =
     (if \<bar>x\<bar> < 2 ^ 53 then x
      else let q = 2 ^ (bit_length (nat \<bar>x\<bar>) - 53);
               m = \<bar>x\<bar> div q;
               r = \<bar>x\<bar> mod q;
               y = (if 2 * r < q \<or> (2 * r = q \<and> even m) then m * q else (m + 1) * q)
           in if x < 0 then - y else y)"

definition float_of_int :: "int \<Rightarrow> exn + int" where
  "float_of_int x =
     (if 2 ^ 1024 \<le> \<bar>nearest_double x\<bar> then Inl OverflowError
      else Inr (nearest_double x))"

definition minus_SONG_LIMIT :: "int \<Rightarrow> exn + int" where
  "minus_SONG_LIMIT total_tracks =
     (case float_of_int total_tracks of
        Inl e \<Rightarrow> Inl e
      | Inr a \<Rightarrow> Inr (nearest_double (a - SONG_LIMIT)))"

subsection \<open>The remote client\<close>

text \<open>
  A paging object of the service, \<^verbatim>\<open>tracks\<close> in the source: its \<^verbatim>\<open>"items"\<close> (each item
  holds a track with an \<^verbatim>\<open>"id"\<close>), its \<^verbatim>\<open>"total"\<close> and its \<^verbatim>\<open>"next"\<close> link
  (\<^verbatim>\<open>None\<close> or a URL).
\<close>

datatype item = Item (track_id: string)

record page =
  tracks_items :: "item list"
  tracks_total :: int
  tracks_next :: "string option"

text \<open>
  What the service answers during one call of \<^verbatim>\<open>add\<close>: every request either returns
  or raises a \<open>SpotifyException\<close> (\<open>Inl\<close>). \<open>next_page\<close> is \<^verbatim>\<open>spotify.next\<close>, which
  fetches the URL of the \<^verbatim>\<open>"next"\<close> link.
\<close>

record spotify =
  user_playlist :: "string \<Rightarrow> exn + page"
  next_page :: "string \<Rightarrow> exn + page"
  user_playlist_remove_all_occurrences_of_tracks :: "string \<Rightarrow> string list \<Rightarrow> exn option"
  user_playlist_add_tracks :: "string \<Rightarrow> string list \<Rightarrow> exn + string"

subsection \<open>The state of a SpotifyPlaylist object\<close>

text \<open>
  \<^verbatim>\<open>self.playlist_count\<close> is a \<^verbatim>\<open>collections.Counter\<close>: a dictionary whose lookup of a
  missing key returns 0 without storing anything, and whose \<^verbatim>\<open>c[k] += d\<close> stores
  \<^verbatim>\<open>c[k] + d\<close>. The \<open>trace\<close> is the history of what the object did: every request sent
  to the service, and every execution of the counting statement of line 115.
\<close>

datatype event =
    Call_user_playlist string
  | Call_next string
  | Call_remove string "string list"
  | Call_add_tracks string "string list"
  | Counted string int

record state =
  playlist_count :: "string \<rightharpoonup> int"
  trace :: "event list"

definition counter_get :: "(string \<rightharpoonup> int) \<Rightarrow> string \<Rightarrow> int" where
  "counter_get c k = (case c k of None \<Rightarrow> 0 | Some v \<Rightarrow> v)"

definition counter_iadd :: "(string \<rightharpoonup> int) \<Rightarrow> string \<Rightarrow> int \<Rightarrow> (string \<rightharpoonup> int)" where
  "counter_iadd c k d = c(k \<mapsto> counter_get c k + d)"

definition emit :: "event \<Rightarrow> state \<Rightarrow> state" where
  "emit ev st = st\<lparr>trace := trace st @ [ev]\<rparr>"

subsection \<open>remove\<close>

text \<open>
  Lines 97-104: the loop over the items of the page in hand that collects identifiers until
  \<open>count >= n\<close>.
\<close>

fun collect :: "int \<Rightarrow> item list \<Rightarrow> int \<Rightarrow> string list \<Rightarrow> string list" where
  "collect n [] count remove = remove"
| "collect n (item # rest) count remove =
     (if count \<ge> n then remove
      else collect n rest (count + 1) (remove @ [track_id item]))"

text \<open>
  Lines 113-120: the \<^verbatim>\<open>while True\<close> loop that counts the songs. It ends when the service
  serves a page without a (truthy) \<^verbatim>\<open>"next"\<close> link or when \<^verbatim>\<open>spotify.next\<close> raises; a
  service that keeps serving links keeps it running, which is the value \<open>None\<close>.
\<close>

partial_function (option) count_songs ::
  "spotify \<Rightarrow> string \<Rightarrow> page \<Rightarrow> state \<Rightarrow> ((exn + unit) \<times> state) option" where
  "count_songs sp playlist_id tracks st =
     (let st1 = emit (Counted playlist_id (tracks_total tracks))
                  (st\<lparr>playlist_count :=
                        counter_iadd (playlist_count st) playlist_id (tracks_total tracks)\<rparr>)
      in case tracks_next tracks of
           None \<Rightarrow> Some (Inr (), st1)
         | Some url \<Rightarrow>
             if url = [] then Some (Inr (), st1)
             else (case next_page sp url of
                     Inl e \<Rightarrow> Some (Inl e, emit (Call_next url) st1)
                   | Inr tracks' \<Rightarrow>
                       count_songs sp playlist_id tracks' (emit (Call_next url) st1)))"

text \<open>
  \<^verbatim>\<open>remove\<close>, lines 80-120. The fetch of line 80 comes first and its exception leaves the
  method. \<open>total_tracks\<close> is computed from the cached count (0 for a playlist without an
  entry) before anything else, and \<open>n\<close> is the float of line 89. The message of the
  guard's \<^verbatim>\<open>PlaylistError\<close> is shortened to its fixed words: the constructor call fails
  before it could be used. An exception of
  the removal request or of \<^verbatim>\<open>spotify.next\<close> leaves the method with the state reached so
  far, as the Counter is updated in place.
\<close>

definition remove :: "spotify \<Rightarrow> string \<Rightarrow> int \<Rightarrow> state \<Rightarrow> ((exn + unit) \<times> state) option" where
  "remove sp playlist_id n_tracks st =
     (let st0 = emit (Call_user_playlist playlist_id) st in
      case user_playlist sp playlist_id of
        Inl e \<Rightarrow> Some (Inl e, st0)
      | Inr tracks \<Rightarrow>
          let total_tracks = counter_get (playlist_count st0) playlist_id + n_tracks in
          if total_tracks \<ge> SONG_LIMIT then
            (case minus_SONG_LIMIT total_tracks of
               Inl e \<Rightarrow> Some (Inl e, st0)
             | Inr n \<Rightarrow>
                 if n > counter_get (playlist_count st0) playlist_id then
                   Some (Inl (raise_PlaylistError ''exceeds playlist song limit''), st0)
                 else
                   let remove = collect n (tracks_items tracks) 0 [];
                       st1 = emit (Call_remove playlist_id remove) st0
                   in (case user_playlist_remove_all_occurrences_of_tracks sp playlist_id remove of
                         Some e \<Rightarrow> Some (Inl e, st1)
                       | None \<Rightarrow> Some (Inr (), st1)))
          else if counter_get (playlist_count st0) playlist_id = 0 then
            count_songs sp playlist_id tracks st0
          else Some (Inr (), st0))"

subsection \<open>add\<close>

text \<open>
  \<^verbatim>\<open>add\<close>, lines 143-158. The call of \<^verbatim>\<open>remove\<close> stands outside the \<^verbatim>\<open>try\<close>, so its
  exceptions reach the caller unchanged. Inside the \<^verbatim>\<open>try\<close>, a SpotifyException of the
  append request enters the \<^verbatim>\<open>except\<close> clause, whose \<^verbatim>\<open>raise PlaylistError(str(e))\<close> is
  the exception the caller sees (any other exception passes the clause by); on success line
  155 adds the batch size to the count and the result of the request is returned. A run
  that never returns is \<open>None\<close>.
\<close>

definition add :: "spotify \<Rightarrow> string \<Rightarrow> string list \<Rightarrow> state \<Rightarrow> ((exn + string) \<times> state) option" where
  "add sp playlist_id tracks st =
     (case remove sp playlist_id (int (length tracks)) st of
        None \<Rightarrow> None
      | Some (Inl e, st1) \<Rightarrow> Some (Inl e, st1)
      | Some (Inr u, st1) \<Rightarrow>
          let st2 = emit (Call_add_tracks playlist_id tracks) st1 in
          (case user_playlist_add_tracks sp playlist_id tracks of
             Inl e \<Rightarrow>
               (case e of
                  SpotifyException msg \<Rightarrow> Some (Inl (raise_PlaylistError (str e)), st2)
                | TypeError \<Rightarrow> Some (Inl e, st2)
                | OverflowError \<Rightarrow> Some (Inl e, st2))
           | Inr results \<Rightarrow>
               Some (Inr results,
                     st2\<lparr>playlist_count :=
                           counter_iadd (playlist_count st2) playlist_id (int (length tracks))\<rparr>)))"

subsection \<open>A process that calls add again and again\<close>

text \<open>
  A caller that invokes \<^verbatim>\<open>add\<close> on one playlist several times, going on after a call
  that raised. Each call meets the service as it is at that moment. The events of the
  counting loop are the ones \<open>is_walk\<close> recognises.
\<close>

fun adds :: "string \<Rightarrow> (spotify \<times> string list) list \<Rightarrow> state \<Rightarrow> state option" where
  "adds playlist_id [] st = Some st"
| "adds playlist_id ((sp, tracks) # rest) st =
     (case add sp playlist_id tracks st of
        None \<Rightarrow> None
      | Some (res, st') \<Rightarrow> adds playlist_id rest st')"

fun is_walk :: "event \<Rightarrow> bool" where
  "is_walk (Counted playlist_id n) = True"
| "is_walk (Call_next url) = True"
| "is_walk ev = False"

text \<open>
  The pages that \<^verbatim>\<open>spotify.next\<close> serves after the page \<open>tracks\<close>, when there are
  finitely many of them: \<open>chain sp tracks rest\<close> holds when following the links from
  \<open>tracks\<close> yields exactly the pages \<open>rest\<close>, the last one without a link.
\<close>

fun chain :: "spotify \<Rightarrow> page \<Rightarrow> page list \<Rightarrow> bool" where
  "chain sp tracks [] =
     (case tracks_next tracks of None \<Rightarrow> True | Some url \<Rightarrow> url = [])"
| "chain sp tracks (tracks' # rest) =
     (case tracks_next tracks of
        None \<Rightarrow> False
      | Some url \<Rightarrow> url \<noteq> [] \<and> next_page sp url = Inr tracks' \<and> chain sp tracks' rest)"

subsection \<open>Scenarios\<close>

text \<open>
  Concrete objects and services for the runs below. \<open>fresh\<close> is the object right after
  \<^verbatim>\<open>__init__\<close>; \<open>tracking c\<close> has counted \<open>c\<close> songs on the playlist \<open>p\<close>.
\<close>

definition fresh :: state where
  "fresh = \<lparr>playlist_count = Map.empty, trace = []\<rparr>"

definition tracking :: "int \<Rightarrow> state" where
  "tracking c = \<lparr>playlist_count = [''p'' \<mapsto> c], trace = []\<rparr>"

definition first_page :: page where
  "first_page = \<lparr>tracks_items = [Item ''t1'', Item ''t2''], tracks_total = 2,
                  tracks_next = Some ''page2''\<rparr>"

definition second_page :: page where
  "second_page = \<lparr>tracks_items = [Item ''t3'', Item ''t4'', Item ''t5''], tracks_total = 3,
                   tracks_next = None\<rparr>"

definition service :: spotify where
  "service = \<lparr>user_playlist = (\<lambda>playlist_id. Inr first_page),
               next_page = (\<lambda>url. Inr second_page),
               user_playlist_remove_all_occurrences_of_tracks = (\<lambda>playlist_id ids. None),
               user_playlist_add_tracks = (\<lambda>playlist_id ids. Inr ''snapshot'')\<rparr>"

definition service_append_fails :: spotify where
  "service_append_fails =
     service\<lparr>user_playlist_add_tracks :=
               (\<lambda>playlist_id ids. Inl (SpotifyException ''http status: 500''))\<rparr>"

definition service_remove_fails :: spotify where
  "service_remove_fails =
     service\<lparr>user_playlist_remove_all_occurrences_of_tracks :=
               (\<lambda>playlist_id ids. Some (SpotifyException ''http status: 403''))\<rparr>"

text \<open>An empty playlist.\<close>

definition empty_page :: page where
  "empty_page = \<lparr>tracks_items = [], tracks_total = 0, tracks_next = None\<rparr>"

definition service_empty :: spotify where
  "service_empty = service\<lparr>user_playlist := (\<lambda>playlist_id. Inr empty_page)\<rparr>"

definition service_empty_append_fails :: spotify where
  "service_empty_append_fails =
     service_append_fails\<lparr>user_playlist := (\<lambda>playlist_id. Inr empty_page)\<rparr>"

text \<open>A playlist of 9999 songs, served as a page of 5000 and a page of 4999.\<close>

definition old_tracks :: "nat \<Rightarrow> item list" where
  "old_tracks k = replicate k (Item ''old'')"

definition page_a :: page where
  "page_a = \<lparr>tracks_items = old_tracks 5000, tracks_total = 5000,
              tracks_next = Some ''page_b''\<rparr>"

definition page_b :: page where
  "page_b = \<lparr>tracks_items = old_tracks 4999, tracks_total = 4999, tracks_next = None\<rparr>"

definition service_full :: spotify where
  "service_full = \<lparr>user_playlist = (\<lambda>playlist_id. Inr page_a),
                    next_page = (\<lambda>url. Inr page_b),
                    user_playlist_remove_all_occurrences_of_tracks = (\<lambda>playlist_id ids. None),
                    user_playlist_add_tracks = (\<lambda>playlist_id ids. Inr ''snapshot'')\<rparr>"

text \<open>A count beyond \<open>2^53\<close>, where the subtraction of line 89 rounds.\<close>

definition huge :: int where
  "huge = 2 ^ 70 + 131073"

text \<open>A batch of \<open>k\<close> new tracks.\<close>

definition batch :: "nat \<Rightarrow> string list" where
  "batch k = replicate k ''new''"

section \<open>Properties\<close>

subsection \<open>Unfolding the scenarios and the methods\<close>

lemmas scenario_defs = fresh_def tracking_def first_page_def second_page_def service_def
  service_append_fails_def service_remove_fails_def empty_page_def service_empty_def
  service_empty_append_fails_def page_a_def page_b_def service_full_def

lemmas method_defs = add_def remove_def Let_def emit_def counter_get_def counter_iadd_def
  raise_PlaylistError_def SONG_LIMIT_def minus_SONG_LIMIT_def float_of_int_def
  nearest_double_def

declare bit_length.simps [simp del]

lemma length_batch [simp]: "length (batch k) = k"
  by (simp add: batch_def)

lemma playlist_count_emit [simp]: "playlist_count (emit ev st) = playlist_count st"
  by (simp add: emit_def)

lemma trace_emit [simp]: "trace (emit ev st) = trace st @ [ev]"
  by (simp add: emit_def)

subsection \<open>The subtraction is exact below \<open>2^53\<close> and rounds above\<close>

text \<open>\<open>bit_length k\<close> is the number of binary digits of \<open>k\<close>.\<close>

lemma bit_length_bounds:
  "0 < k \<Longrightarrow> 2 ^ (bit_length k - 1) \<le> k \<and> k < 2 ^ bit_length k"
proof (induction k rule: bit_length.induct)
  case (1 k)
  show ?case
  proof (cases "k div 2 = 0")
    case True
    with "1.prems" have "k = 1" by (simp add: div_eq_0_iff)
    then show ?thesis by (simp add: bit_length.simps)
  next
    case False
    then have pos: "0 < k div 2" by simp
    from "1.IH" [OF _ pos] "1.prems"
    have ih: "2 ^ (bit_length (k div 2) - 1) \<le> k div 2" "k div 2 < 2 ^ bit_length (k div 2)"
      by simp_all
    have b: "bit_length k = Suc (bit_length (k div 2))"
      using "1.prems" by (subst bit_length.simps) simp
    have p: "0 < bit_length (k div 2)"
      using pos by (subst bit_length.simps) simp
    then obtain j where j: "bit_length (k div 2) = Suc j"
      by (cases "bit_length (k div 2)") auto
    from ih show ?thesis unfolding b j by auto
  qed
qed

text \<open>
  Below \<open>2^53\<close> the conversion and the subtraction are exact. Beyond, they round: at
  \<open>huge + 2 = 2^70 + 131075\<close> the doubles are \<open>2^18\<close> apart. From \<open>2^1024\<close> on the
  conversion raises.
\<close>

lemma nearest_double_exact: "\<bar>x\<bar> < 2 ^ 53 \<Longrightarrow> nearest_double x = x"
  by (simp add: nearest_double_def)

lemma minus_SONG_LIMIT_exact:
  assumes "SONG_LIMIT \<le> t" and "t < 2 ^ 53"
  shows "minus_SONG_LIMIT t = Inr (t - SONG_LIMIT)"
proof -
  have a: "\<bar>t\<bar> < 2 ^ 53" using assms by (simp add: SONG_LIMIT_def)
  have b: "\<bar>t - SONG_LIMIT\<bar> < 2 ^ 53" using assms by (simp add: SONG_LIMIT_def)
  have c: "(2::int) ^ 53 \<le> 2 ^ 1024" by (rule power_increasing) simp_all
  have "float_of_int t = Inr t"
    using a c by (simp add: float_of_int_def nearest_double_exact)
  then show ?thesis using b by (simp add: minus_SONG_LIMIT_def nearest_double_exact)
qed

lemma minus_SONG_LIMIT_rounds:
  "minus_SONG_LIMIT (huge + 2) = Inr (2 ^ 70 + 262144)"
  by (simp add: huge_def minus_SONG_LIMIT_def float_of_int_def nearest_double_def
        SONG_LIMIT_def bit_length.simps Let_def)

lemma minus_SONG_LIMIT_overflows:
  "minus_SONG_LIMIT (2 ^ 1024) = Inl OverflowError"
  by (simp add: minus_SONG_LIMIT_def float_of_int_def nearest_double_def
        bit_length.simps Let_def)

subsection \<open>The collecting loop takes a prefix of the page in hand\<close>

lemma collect_eq:
  "collect n its count acc = acc @ map track_id (take (nat (n - count)) its)"
proof (induction its arbitrary: count acc)
  case Nil
  show ?case by simp
next
  case (Cons it rest)
  show ?case
  proof (cases "count \<ge> n")
    case True
    then show ?thesis by simp
  next
    case False
    then have "nat (n - count) = Suc (nat (n - (count + 1)))" by simp
    with False Cons show ?thesis by simp
  qed
qed

lemma collect_take: "collect n its 0 [] = take (nat n) (map track_id its)"
  by (simp add: collect_eq take_map)

subsection \<open>The counting loop on a finite chain of pages\<close>

lemma count_songs_chain:
  "chain sp tracks rest \<Longrightarrow>
   \<exists>st' evs. count_songs sp pid tracks st = Some (Inr (), st') \<and>
     playlist_count st' =
       (playlist_count st)(pid \<mapsto> counter_get (playlist_count st) pid
                                   + sum_list (map tracks_total (tracks # rest))) \<and>
     trace st' = trace st @ evs \<and> (\<forall>ev \<in> set evs. is_walk ev)"
proof (induction rest arbitrary: tracks st)
  case Nil
  then show ?case
    by (subst count_songs.simps)
       (auto simp: Let_def emit_def counter_iadd_def split: option.splits)
next
  case (Cons tracks' rest)
  from Cons.prems obtain url where url: "tracks_next tracks = Some url" "url \<noteq> []"
    and nxt: "next_page sp url = Inr tracks'" and ch: "chain sp tracks' rest"
    by (auto split: option.splits)
  let ?st1 = "emit (Call_next url) (emit (Counted pid (tracks_total tracks))
                (st\<lparr>playlist_count :=
                      counter_iadd (playlist_count st) pid (tracks_total tracks)\<rparr>))"
  from Cons.IH [OF ch, of ?st1]
  obtain st' evs where r: "count_songs sp pid tracks' ?st1 = Some (Inr (), st')"
    and c: "playlist_count st' =
              (playlist_count ?st1)(pid \<mapsto> counter_get (playlist_count ?st1) pid
                                          + sum_list (map tracks_total (tracks' # rest)))"
    and t: "trace st' = trace ?st1 @ evs" and w: "\<forall>ev \<in> set evs. is_walk ev"
    by blast
  define evs' where "evs' = Counted pid (tracks_total tracks) # Call_next url # evs"
  have "count_songs sp pid tracks st = count_songs sp pid tracks' ?st1"
    by (subst count_songs.simps) (simp add: Let_def url nxt)
  with r have 1: "count_songs sp pid tracks st = Some (Inr (), st')" by simp
  have 2: "playlist_count st' =
          (playlist_count st)(pid \<mapsto> counter_get (playlist_count st) pid
                                      + sum_list (map tracks_total (tracks # tracks' # rest)))"
    using c by (simp add: counter_get_def counter_iadd_def add.assoc)
  have 3: "trace st' = trace st @ evs'"
    using t by (simp add: evs'_def)
  have 4: "\<forall>ev \<in> set evs'. is_walk ev"
    using w by (simp add: evs'_def)
  from 1 2 3 4 show ?case by blast
qed

subsection \<open>The branches of remove\<close>

lemma remove_fetch_fails:
  "user_playlist sp pid = Inl e \<Longrightarrow>
   remove sp pid n_tracks st = Some (Inl e, emit (Call_user_playlist pid) st)"
  by (simp add: remove_def)

lemma remove_overflow:
  assumes "user_playlist sp pid = Inr tracks"
    and "SONG_LIMIT \<le> counter_get (playlist_count st) pid + n_tracks"
    and "minus_SONG_LIMIT (counter_get (playlist_count st) pid + n_tracks) = Inl e"
  shows "remove sp pid n_tracks st = Some (Inl e, emit (Call_user_playlist pid) st)"
  using assms by (simp add: remove_def Let_def)

lemma remove_guard:
  assumes "user_playlist sp pid = Inr tracks"
    and "SONG_LIMIT \<le> counter_get (playlist_count st) pid + n_tracks"
    and "minus_SONG_LIMIT (counter_get (playlist_count st) pid + n_tracks) = Inr n"
    and "n > counter_get (playlist_count st) pid"
  shows "remove sp pid n_tracks st = Some (Inl TypeError, emit (Call_user_playlist pid) st)"
  using assms by (simp add: remove_def Let_def raise_PlaylistError_def)

lemma remove_evict:
  assumes "user_playlist sp pid = Inr tracks"
    and "SONG_LIMIT \<le> counter_get (playlist_count st) pid + n_tracks"
    and "minus_SONG_LIMIT (counter_get (playlist_count st) pid + n_tracks) = Inr n"
    and "n \<le> counter_get (playlist_count st) pid"
    and "ids = collect n (tracks_items tracks) 0 []"
    and "st1 = emit (Call_remove pid ids) (emit (Call_user_playlist pid) st)"
  shows "remove sp pid n_tracks st =
           (case user_playlist_remove_all_occurrences_of_tracks sp pid ids of
              Some e \<Rightarrow> Some (Inl e, st1)
            | None \<Rightarrow> Some (Inr (), st1))"
  using assms by (simp add: remove_def Let_def split: option.split)

lemma remove_tracked:
  assumes "user_playlist sp pid = Inr tracks"
    and "counter_get (playlist_count st) pid + n_tracks < SONG_LIMIT"
    and "counter_get (playlist_count st) pid \<noteq> 0"
  shows "remove sp pid n_tracks st = Some (Inr (), emit (Call_user_playlist pid) st)"
  using assms by (simp add: remove_def Let_def)

lemma remove_walk:
  assumes "user_playlist sp pid = Inr tracks"
    and "counter_get (playlist_count st) pid + n_tracks < SONG_LIMIT"
    and "counter_get (playlist_count st) pid = 0"
  shows "remove sp pid n_tracks st =
           count_songs sp pid tracks (emit (Call_user_playlist pid) st)"
  using assms by (simp add: remove_def Let_def)

subsection \<open>The outcomes of add on a playlist that needs an eviction\<close>

text \<open>
  When the cached count plus the batch reaches the limit, the guard passes and both
  requests succeed, \<^verbatim>\<open>add\<close> asks the service to remove a prefix of the first page and to
  append the batch, and stores the cached count plus the batch size: what the eviction
  removed is not taken off the count. \<open>n\<close> is the float of line 89; below \<open>2^53\<close> it is
  \<open>current + len(tracks) - SONG_LIMIT\<close> (lemma \<open>minus_SONG_LIMIT_exact\<close>).
\<close>

lemma add_evicts_and_appends:
  assumes fetch: "user_playlist sp pid = Inr tracks"
    and current: "current = counter_get (playlist_count st) pid"
    and evict: "SONG_LIMIT \<le> current + int (length ts)"
    and n: "minus_SONG_LIMIT (current + int (length ts)) = Inr n"
    and guard: "n \<le> current"
    and ids: "ids = take (nat n) (map track_id (tracks_items tracks))"
    and removed: "user_playlist_remove_all_occurrences_of_tracks sp pid ids = None"
    and appended: "user_playlist_add_tracks sp pid ts = Inr results"
  shows "add sp pid ts st =
           Some (Inr results,
                 \<lparr>playlist_count = (playlist_count st)(pid \<mapsto> current + int (length ts)),
                  trace = trace st @ [Call_user_playlist pid, Call_remove pid ids,
                                      Call_add_tracks pid ts]\<rparr>)"
proof -
  have c: "ids = collect n (tracks_items tracks) 0 []"
    using ids by (simp add: collect_take)
  have "remove sp pid (int (length ts)) st =
          Some (Inr (), emit (Call_remove pid ids) (emit (Call_user_playlist pid) st))"
    using remove_evict [OF fetch _ _ _ c refl, of st "int (length ts)"]
      current n evict guard removed
    by simp
  then show ?thesis
    using appended current
    by (simp add: add_def Let_def emit_def counter_iadd_def)
qed

text \<open>
  A batch longer than the limit stops at the guard of line 92, for every cached count below
  \<open>2^53\<close>: one request (the fetch of line 80) has been sent, the count is as it was, and the
  exception that leaves \<^verbatim>\<open>add\<close> is the TypeError of the failed \<^verbatim>\<open>PlaylistError(...)\<close>
  call.
\<close>

lemma add_guard_fires:
  assumes fetch: "user_playlist sp pid = Inr tracks"
    and long: "SONG_LIMIT < int (length ts)"
    and tracked: "0 \<le> counter_get (playlist_count st) pid"
    and small: "counter_get (playlist_count st) pid + int (length ts) < 2 ^ 53"
  shows "add sp pid ts st = Some (Inl TypeError, emit (Call_user_playlist pid) st)"
proof -
  let ?t = "counter_get (playlist_count st) pid + int (length ts)"
  have lim: "SONG_LIMIT \<le> ?t" using long tracked by simp
  have "remove sp pid (int (length ts)) st =
          Some (Inl TypeError, emit (Call_user_playlist pid) st)"
    using remove_guard [OF fetch lim minus_SONG_LIMIT_exact [OF lim small]] long by simp
  then show ?thesis by (simp add: add_def)
qed

text \<open>
  Beyond \<open>2^53\<close> the rounding of line 89 decides. A playlist tracked at \<open>2^70 + 131073\<close>
  songs receives two tracks: the float \<open>n\<close> is \<open>2^70 + 262144\<close>, more than the cached
  count, and the guard fires although the exact excess would have passed it.
\<close>

lemma add_guard_fires_by_rounding:
  "add service ''p'' [''a'', ''b''] (tracking huge) =
     Some (Inl TypeError,
           \<lparr>playlist_count = [''p'' \<mapsto> huge], trace = [Call_user_playlist ''p'']\<rparr>)"
proof -
  have c: "counter_get (playlist_count (tracking huge)) ''p'' = huge"
    by (simp add: tracking_def counter_get_def)
  have f: "user_playlist service ''p'' = Inr first_page" by (simp add: service_def)
  have lim: "SONG_LIMIT \<le> counter_get (playlist_count (tracking huge)) ''p'' + 2"
    unfolding c by (simp add: huge_def SONG_LIMIT_def)
  have n: "minus_SONG_LIMIT (counter_get (playlist_count (tracking huge)) ''p'' + 2)
             = Inr (2 ^ 70 + 262144)"
    unfolding c by (rule minus_SONG_LIMIT_rounds)
  have g: "(2::int) ^ 70 + 262144 > counter_get (playlist_count (tracking huge)) ''p''"
    unfolding c by (simp add: huge_def)
  have "remove service ''p'' 2 (tracking huge) =
          Some (Inl TypeError, emit (Call_user_playlist ''p'') (tracking huge))"
    by (rule remove_guard [OF f lim n g])
  then show ?thesis by (simp add: add_def emit_def tracking_def)
qed

subsection \<open>The outcome of add on a playlist that has no count yet\<close>

text \<open>
  On a playlist whose cached count reads 0, a batch shorter than the limit never leads to
  an eviction, however many songs the walk then finds: when the service serves finitely
  many pages and accepts the batch, the call counts the pages, appends, and stores the sum
  of the page totals plus the batch size. The events between the fetch and the append
  request all belong to the walk.
\<close>

lemma add_uncounted_appends_without_eviction:
  assumes fetch: "user_playlist sp pid = Inr tracks"
    and uncounted: "counter_get (playlist_count st) pid = 0"
    and short: "int (length ts) < SONG_LIMIT"
    and pages: "chain sp tracks rest"
    and appended: "user_playlist_add_tracks sp pid ts = Inr results"
  shows "\<exists>st' evs. add sp pid ts st = Some (Inr results, st') \<and>
           playlist_count st' =
             (playlist_count st)(pid \<mapsto> sum_list (map tracks_total (tracks # rest))
                                         + int (length ts)) \<and>
           trace st' = trace st @ [Call_user_playlist pid] @ evs @ [Call_add_tracks pid ts] \<and>
           (\<forall>ev \<in> set evs. is_walk ev)"
proof -
  let ?st0 = "emit (Call_user_playlist pid) st"
  have rm: "remove sp pid (int (length ts)) st = count_songs sp pid tracks ?st0"
    using remove_walk [OF fetch _ uncounted, of "int (length ts)"] uncounted short by simp
  from count_songs_chain [OF pages, of pid ?st0]
  obtain st1 evs where r: "count_songs sp pid tracks ?st0 = Some (Inr (), st1)"
    and c: "playlist_count st1 =
              (playlist_count ?st0)(pid \<mapsto> counter_get (playlist_count ?st0) pid
                                          + sum_list (map tracks_total (tracks # rest)))"
    and t: "trace st1 = trace ?st0 @ evs" and w: "\<forall>ev \<in> set evs. is_walk ev"
    by blast
  have "add sp pid ts st =
          Some (Inr results,
                (emit (Call_add_tracks pid ts) st1)\<lparr>playlist_count :=
                   counter_iadd (playlist_count st1) pid (int (length ts))\<rparr>)"
    using rm r appended by (simp add: add_def Let_def)
  moreover have "counter_iadd (playlist_count st1) pid (int (length ts)) =
          (playlist_count st)(pid \<mapsto> sum_list (map tracks_total (tracks # rest))
                                      + int (length ts))"
    using c uncounted by (simp add: counter_iadd_def counter_get_def)
  ultimately show ?thesis using t w by auto
qed

section \<open>The claims\<close>

subsection \<open>C1: the tracked count and the limit\<close>

text \<open>
  C1. Starting from a cached count of at most \<open>SONG_LIMIT\<close>, the tracked count is to stay
  at most \<open>SONG_LIMIT\<close> after every call of \<^verbatim>\<open>add\<close> that completes. The count is meant
  to be the playlist's song count (the comment of line 154, the docstring of
  \<^verbatim>\<open>remove\<close>), and after an eviction of \<open>n\<close> songs the playlist holds
  \<open>current - n + len(tracks)\<close> of them. Line 155 stores \<open>current + len(tracks)\<close>, and no
  statement takes the evicted songs off the count (lemma \<open>add_evicts_and_appends\<close>). In
  the run below the playlist is tracked at 9999 songs and two tracks are added: one song is
  evicted, both requests succeed, and the tracked count becomes 10001.
\<close>

theorem add_count_exceeds_limit:
  "add service ''p'' [''a'', ''b''] (tracking 9999) =
     Some (Inr ''snapshot'',
           \<lparr>playlist_count = [''p'' \<mapsto> 10001],
            trace = [Call_user_playlist ''p'', Call_remove ''p'' [''t1''],
                     Call_add_tracks ''p'' [''a'', ''b'']]\<rparr>)"
  by (simp add: scenario_defs method_defs)

subsection \<open>C2: the append fails after a successful eviction\<close>

text \<open>
  C2. When the eviction succeeded and the append request fails, the cached count is to be
  \<open>current - excess\<close> afterwards, and the caller is to see an append error that wraps the
  message of the remote error. In the run below the playlist is tracked at 9999 songs, two
  tracks are added, the song in excess is removed and the append request raises a
  SpotifyException. The cached count stays 9999 (the eviction is not recorded), and the
  \<^verbatim>\<open>except\<close> clause of line 158 raises a TypeError instead of a PlaylistError that carries
  \<^verbatim>\<open>str(e)\<close>, since \<^verbatim>\<open>PlaylistError\<close> is not an exception class and takes no argument.
\<close>

theorem add_append_fails_after_eviction:
  "add service_append_fails ''p'' [''a'', ''b''] (tracking 9999) =
     Some (Inl TypeError,
           \<lparr>playlist_count = [''p'' \<mapsto> 9999],
            trace = [Call_user_playlist ''p'', Call_remove ''p'' [''t1''],
                     Call_add_tracks ''p'' [''a'', ''b'']]\<rparr>)"
  by (simp add: scenario_defs method_defs)

subsection \<open>C3: the count after a successful add\<close>

text \<open>
  C3. After a fully successful \<^verbatim>\<open>add\<close> of \<open>n\<close> tracks the cached count is to be
  \<open>current - excess + n\<close>, with \<open>excess = current + n - SONG_LIMIT\<close> when an eviction
  took place. In the run below the playlist is tracked at 10000 songs and one track is added:
  the excess is 1, one song is evicted, and the expected count is 10000. The code stores
  \<open>current + n = 10001\<close>.
\<close>

theorem add_count_ignores_eviction:
  "add service ''p'' [''a''] (tracking 10000) =
     Some (Inr ''snapshot'',
           \<lparr>playlist_count = [''p'' \<mapsto> 10001],
            trace = [Call_user_playlist ''p'', Call_remove ''p'' [''t1''],
                     Call_add_tracks ''p'' [''a'']]\<rparr>)"
  by (simp add: scenario_defs method_defs)

subsection \<open>C4: which songs are evicted\<close>

text \<open>
  C4. When an eviction is needed and the guard passes, the identifiers handed to the removal
  request are to be the first \<open>excess\<close> identifiers of the playlist, collected page by page,
  and exactly \<open>excess\<close> many. The loop of lines 97-104 reads the items of the first page only
  (lemma \<open>collect_take\<close>); it never calls \<^verbatim>\<open>spotify.next\<close>, as the counting loop of lines
  113-120 does. In the run below the playlist is tracked at 10000 songs, its first page holds
  \<open>t1\<close> and \<open>t2\<close> and links to a second page with \<open>t3\<close>, \<open>t4\<close> and \<open>t5\<close>, and three tracks
  are added: the excess is 3, and the removal request names two identifiers.
\<close>

theorem add_evicts_from_first_page_only:
  "add service ''p'' [''a'', ''b'', ''c''] (tracking 10000) =
     Some (Inr ''snapshot'',
           \<lparr>playlist_count = [''p'' \<mapsto> 10003],
            trace = [Call_user_playlist ''p'', Call_remove ''p'' [''t1'', ''t2''],
                     Call_add_tracks ''p'' [''a'', ''b'', ''c'']]\<rparr>)"
  by (simp add: scenario_defs method_defs)

subsection \<open>C5: a batch that cannot fit\<close>

text \<open>
  C5. When \<open>current + n - SONG_LIMIT > current\<close>, that is when the batch is longer than
  the limit, \<^verbatim>\<open>add\<close> is to fail with a capacity error, to send no removal and no append
  request, and to leave the cached count as it is. In the run below the playlist is tracked
  at 2 songs and 10001 tracks are added. No removal and no append request is sent and the
  count stays 2, but the exception that reaches the caller is the TypeError of the failed
  \<^verbatim>\<open>PlaylistError(...)\<close> call of line 93, not the PlaylistError that the docstring of
  \<^verbatim>\<open>remove\<close> announces (lemma \<open>add_guard_fires\<close>: the same for every such batch on a
  cached count below \<open>2^53\<close>).
\<close>

theorem add_guard_raises_TypeError:
  "add service ''p'' (batch 10001) (tracking 2) =
     Some (Inl TypeError,
           \<lparr>playlist_count = [''p'' \<mapsto> 2], trace = [Call_user_playlist ''p'']\<rparr>)"
  by (simp add: scenario_defs method_defs)

subsection \<open>C6: the first call on a playlist\<close>

text \<open>
  C6. On a playlist without a cached count, \<^verbatim>\<open>add\<close> is to count the playlist first, by
  a walk over all its pages, and to decide about the eviction from that count. In
  \<^verbatim>\<open>remove\<close> the decision comes first: line 87 reads the missing count as 0, and the walk of
  lines 113-120 runs only in the branch where that sum stayed below the limit. In the run
  below the playlist holds 9999 songs on two pages and has no cached count, and two tracks
  are added. Both pages are counted, no removal request is sent although
  \<open>9999 + 2\<close> exceeds the limit, and the cached count ends at 10001.
\<close>

theorem add_untracked_decides_before_counting:
  "add service_full ''p'' [''a'', ''b''] fresh =
     Some (Inr ''snapshot'',
           \<lparr>playlist_count = [''p'' \<mapsto> 10001],
            trace = [Call_user_playlist ''p'', Counted ''p'' 5000, Call_next ''page_b'',
                     Counted ''p'' 4999, Call_add_tracks ''p'' [''a'', ''b'']]\<rparr>)"
  by (simp add: scenario_defs method_defs count_songs.simps)

subsection \<open>C7: how often a playlist is counted\<close>

text \<open>
  C7, as stated: the counting walk runs at most once per playlist; once a size has been
  established, no later call of \<^verbatim>\<open>add\<close> walks again. The test of line 112 is
  \<open>playlist_count[playlist_id] == 0\<close>, so a playlist counted as empty is counted again. In
  the run below the playlist is empty: the first call counts it (0 songs) and its append
  request fails, and the second call counts it again.
\<close>

theorem adds_counts_empty_playlist_twice:
  "adds ''p'' [(service_empty_append_fails, [''a'']), (service_empty, [''a''])] fresh =
     Some \<lparr>playlist_count = [''p'' \<mapsto> 1],
           trace = [Call_user_playlist ''p'', Counted ''p'' 0, Call_add_tracks ''p'' [''a''],
                    Call_user_playlist ''p'', Counted ''p'' 0, Call_add_tracks ''p'' [''a'']]\<rparr>"
  by (simp add: scenario_defs method_defs count_songs.simps)

text \<open>
  One call of \<^verbatim>\<open>add\<close> on a playlist whose cached count is positive: it returns, it neither
  counts a page nor follows a link, and the count stays positive.
\<close>

lemma add_tracked_no_walk:
  assumes "0 < counter_get (playlist_count st) p"
  shows "\<exists>res st' evs. add sp p ts st = Some (res, st') \<and> trace st' = trace st @ evs
           \<and> (\<forall>ev \<in> set evs. \<not> is_walk ev) \<and> 0 < counter_get (playlist_count st') p"
proof (cases "user_playlist sp p")
  case (Inl e)
  then show ?thesis using assms by (simp add: add_def remove_fetch_fails)
next
  case (Inr tracks)
  let ?c = "counter_get (playlist_count st) p"
  let ?n = "int (length ts)"
  have rm: "\<exists>r st1 evs. remove sp p ?n st = Some (r, st1) \<and> trace st1 = trace st @ evs
            \<and> (\<forall>ev \<in> set evs. \<not> is_walk ev) \<and> playlist_count st1 = playlist_count st"
  proof (cases "SONG_LIMIT \<le> ?c + ?n")
    case False
    then show ?thesis using remove_tracked [OF Inr, of st ?n] assms by simp
  next
    case True
    show ?thesis
    proof (cases "minus_SONG_LIMIT (?c + ?n)")
      case (Inl e)
      from remove_overflow [OF \<open>user_playlist sp p = Inr tracks\<close> True Inl]
      show ?thesis by simp
    next
      case excess: (Inr n)
      show ?thesis
      proof (cases "n > ?c")
        case True
        from remove_guard [OF \<open>user_playlist sp p = Inr tracks\<close>
            \<open>SONG_LIMIT \<le> ?c + ?n\<close> excess True]
        show ?thesis by simp
      next
        case False
        then have "n \<le> ?c" by simp
        from remove_evict [OF \<open>user_playlist sp p = Inr tracks\<close>
            \<open>SONG_LIMIT \<le> ?c + ?n\<close> excess this refl refl]
        show ?thesis by (simp split: option.split)
      qed
    qed
  qed
  then obtain r st1 evs where r: "remove sp p ?n st = Some (r, st1)"
    and t: "trace st1 = trace st @ evs" and w: "\<forall>ev \<in> set evs. \<not> is_walk ev"
    and c: "playlist_count st1 = playlist_count st" by blast
  show ?thesis
  proof (cases r)
    case (Inl e)
    then show ?thesis using r t w c assms by (simp add: add_def)
  next
    case (Inr u)
    then show ?thesis using r t w c assms
      by (cases "user_playlist_add_tracks sp p ts")
         (auto simp: add_def Let_def counter_iadd_def counter_get_def split: exn.splits)
  qed
qed

text \<open>
  C7, amended: once a positive count is cached for a playlist, no later call of \<^verbatim>\<open>add\<close>
  on it performs the counting walk. Every sequence of calls returns, and none of the events
  it adds to the trace is a counted page or a followed link.
\<close>

theorem adds_tracked_never_walks:
  assumes "0 < counter_get (playlist_count st) p"
  shows "\<exists>st' evs. adds p calls st = Some st' \<and> trace st' = trace st @ evs
           \<and> (\<forall>ev \<in> set evs. \<not> is_walk ev)"
  using assms
proof (induction calls arbitrary: st)
  case Nil
  then show ?case by simp
next
  case (Cons call calls)
  obtain sp ts where call: "call = (sp, ts)" by (cases call)
  from add_tracked_no_walk [OF Cons.prems, of sp ts]
  obtain res st1 evs1 where a: "add sp p ts st = Some (res, st1)"
    and t1: "trace st1 = trace st @ evs1" and w1: "\<forall>ev \<in> set evs1. \<not> is_walk ev"
    and c1: "0 < counter_get (playlist_count st1) p" by blast
  from Cons.IH [OF c1]
  obtain st' evs where b: "adds p calls st1 = Some st'"
    and t: "trace st' = trace st1 @ evs" and w: "\<forall>ev \<in> set evs. \<not> is_walk ev" by blast
  have "adds p (call # calls) st = Some st'" using call a b by simp
  moreover have "trace st' = trace st @ (evs1 @ evs)" using t1 t by simp
  moreover have "\<forall>ev \<in> set (evs1 @ evs). \<not> is_walk ev" using w1 w by auto
  ultimately show ?case by blast
qed

text \<open>The theorem at work: a playlist tracked at 5 songs, and two calls on it.\<close>

theorem adds_tracked_never_walks_witness:
  "0 < counter_get (playlist_count (tracking 5)) ''p'' \<and>
   (\<exists>st' evs. adds ''p'' [(service, [''a'']), (service_append_fails, [''b''])] (tracking 5)
                 = Some st'
       \<and> trace st' = trace (tracking 5) @ evs \<and> (\<forall>ev \<in> set evs. \<not> is_walk ev))"
proof -
  have h: "0 < counter_get (playlist_count (tracking 5)) ''p''"
    by (simp add: tracking_def counter_get_def)
  from adds_tracked_never_walks [OF h, of "[(service, [''a'']), (service_append_fails, [''b''])]"]
  show ?thesis using h by simp
qed

subsection \<open>C8: adjusting the count of a playlist that has none\<close>

text \<open>
  C8, as stated: adding a delta to the count of a playlist without a cached entry fails
  with an internal-consistency error and creates no entry. \<^verbatim>\<open>playlist_count\<close> is a
  \<^verbatim>\<open>Counter\<close>, and \<^verbatim>\<open>playlist_count[playlist_id] += d\<close> on a missing key stores \<open>d\<close>. Line
  155 does reach a playlist without an entry: in the run below a fresh object adds a batch
  of exactly \<open>SONG_LIMIT\<close> tracks, the walk is skipped, and the call succeeds and creates
  the entry.
\<close>

theorem add_creates_missing_entry:
  "playlist_count fresh ''p'' = None \<and>
   add service ''p'' (batch 10000) fresh =
     Some (Inr ''snapshot'',
           \<lparr>playlist_count = [''p'' \<mapsto> 10000],
            trace = [Call_user_playlist ''p'', Call_remove ''p'' [],
                     Call_add_tracks ''p'' (batch 10000)]\<rparr>)"
  by (simp add: scenario_defs method_defs)

text \<open>
  C8, amended: for a playlist without a cached entry, the adjustment creates the entry and
  stores the delta in it (the missing count reads as 0); no error is raised.
\<close>

theorem counter_iadd_untracked:
  "c k = None \<Longrightarrow> counter_iadd c k d = c(k \<mapsto> d)"
  by (simp add: counter_iadd_def counter_get_def)

theorem counter_iadd_untracked_witness:
  "playlist_count fresh ''p'' = None \<and>
   counter_iadd (playlist_count fresh) ''p'' 7 = (playlist_count fresh)(''p'' \<mapsto> 7)"
proof -
  have h: "playlist_count fresh ''p'' = None" by (simp add: fresh_def)
  from counter_iadd_untracked [of "playlist_count fresh" "''p''" 7] h show ?thesis by simp
qed

subsection \<open>C9: a failed eviction leaves the count alone\<close>

text \<open>
  C9. For every call of \<^verbatim>\<open>add\<close> in which the removal request fails, the error reaches the
  caller and the cached count is exactly what it was before the call. The removal request
  is sent when the fetch of line 80 returned a page, the cached count plus the batch size
  reaches the limit, the subtraction of line 89 yields the float \<open>n\<close>, and \<open>n\<close> does not
  exceed the cached count; \<open>ids\<close> is what the loop of lines 97-104 collected. These are all
  the calls that send the request, for counts of any size. The exception \<open>e\<close> of the
  removal request leaves \<^verbatim>\<open>remove\<close> and \<^verbatim>\<open>add\<close> as it is (line 144 stands outside the
  \<^verbatim>\<open>try\<close>), the count map is unchanged, and no append request was sent.
\<close>

theorem add_removal_fails_count_unchanged:
  assumes fetch: "user_playlist sp pid = Inr tracks"
    and current: "current = counter_get (playlist_count st) pid"
    and evict: "SONG_LIMIT \<le> current + int (length ts)"
    and n: "minus_SONG_LIMIT (current + int (length ts)) = Inr n"
    and guard: "n \<le> current"
    and ids: "ids = collect n (tracks_items tracks) 0 []"
    and fails: "user_playlist_remove_all_occurrences_of_tracks sp pid ids = Some e"
  shows "\<exists>st'. add sp pid ts st = Some (Inl e, st')
           \<and> playlist_count st' = playlist_count st
           \<and> trace st' = trace st @ [Call_user_playlist pid, Call_remove pid ids]"
proof -
  have "remove sp pid (int (length ts)) st =
          Some (Inl e, emit (Call_remove pid ids) (emit (Call_user_playlist pid) st))"
    using remove_evict [OF fetch _ _ _ ids refl, of st "int (length ts)"]
      current n evict guard fails
    by simp
  then show ?thesis by (simp add: add_def)
qed

text \<open>
  The theorem at work: the playlist \<open>p\<close> is tracked at 9999 songs, two tracks are added,
  and the service refuses the removal of the one track in excess.
\<close>

theorem add_removal_fails_count_unchanged_witness:
  "user_playlist service_remove_fails ''p'' = Inr first_page \<and>
   SONG_LIMIT \<le> counter_get (playlist_count (tracking 9999)) ''p'' + int (length [''a'', ''b'']) \<and>
   minus_SONG_LIMIT (counter_get (playlist_count (tracking 9999)) ''p''
                       + int (length [''a'', ''b''])) = Inr 1 \<and>
   1 \<le> counter_get (playlist_count (tracking 9999)) ''p'' \<and>
   [''t1''] = collect 1 (tracks_items first_page) 0 [] \<and>
   user_playlist_remove_all_occurrences_of_tracks service_remove_fails ''p'' [''t1'']
     = Some (SpotifyException ''http status: 403'') \<and>
   (\<exists>st'. add service_remove_fails ''p'' [''a'', ''b''] (tracking 9999)
             = Some (Inl (SpotifyException ''http status: 403''), st')
        \<and> playlist_count st' = playlist_count (tracking 9999)
        \<and> trace st' = trace (tracking 9999) @ [Call_user_playlist ''p'', Call_remove ''p'' [''t1'']])"
proof -
  have h1: "user_playlist service_remove_fails ''p'' = Inr first_page"
    by (simp add: service_remove_fails_def service_def)
  have c: "counter_get (playlist_count (tracking 9999)) ''p'' = 9999"
    by (simp add: tracking_def counter_get_def)
  have h2: "SONG_LIMIT \<le> counter_get (playlist_count (tracking 9999)) ''p''
              + int (length [''a'', ''b''])"
    by (simp add: c SONG_LIMIT_def)
  have h3: "minus_SONG_LIMIT (counter_get (playlist_count (tracking 9999)) ''p''
              + int (length [''a'', ''b''])) = Inr 1"
    by (simp add: c minus_SONG_LIMIT_def float_of_int_def nearest_double_def SONG_LIMIT_def)
  have h4: "1 \<le> counter_get (playlist_count (tracking 9999)) ''p''"
    by (simp add: c)
  have h5: "[''t1''] = collect 1 (tracks_items first_page) 0 []"
    by (simp add: first_page_def)
  have h6: "user_playlist_remove_all_occurrences_of_tracks service_remove_fails ''p'' [''t1'']
              = Some (SpotifyException ''http status: 403'')"
    by (simp add: service_remove_fails_def service_def)
  from add_removal_fails_count_unchanged [OF h1 refl h2 h3 h4 h5 h6] h1 h2 h3 h4 h5 h6
  show ?thesis by blast
qed

subsection \<open>C10: the batch that fills the playlist exactly\<close>

text \<open>
  C10. When the cached count plus the batch size equals \<open>SONG_LIMIT\<close>, the eviction branch
  is taken with an excess of 0: a removal request with an empty list of identifiers is
  sent, and the counting walk is skipped, also for a playlist without a cached count. The
  fetch of line 80 has returned a page, and the cached count is not negative (it is a sum of
  page totals and batch sizes). The events of the call are the fetch, the removal request
  for \<open>[]\<close> and, when that request succeeds, the append request: no page is counted and no
  link is followed.
\<close>

theorem add_at_limit_removes_nothing:
  assumes fetch: "user_playlist sp pid = Inr tracks"
    and current: "current = counter_get (playlist_count st) pid"
    and exact: "current + int (length ts) = SONG_LIMIT"
    and tracked: "0 \<le> current"
  shows "\<exists>res st'. add sp pid ts st = Some (res, st') \<and>
           (trace st' = trace st @ [Call_user_playlist pid, Call_remove pid []] \<or>
            trace st' = trace st @ [Call_user_playlist pid, Call_remove pid [],
                                    Call_add_tracks pid ts])"
proof -
  have a: "SONG_LIMIT \<le> counter_get (playlist_count st) pid + int (length ts)"
    using current exact by simp
  have "minus_SONG_LIMIT SONG_LIMIT = Inr (SONG_LIMIT - SONG_LIMIT)"
    by (rule minus_SONG_LIMIT_exact) (simp_all add: SONG_LIMIT_def)
  then have n: "minus_SONG_LIMIT (counter_get (playlist_count st) pid + int (length ts)) = Inr 0"
    using current exact by simp
  have b: "0 \<le> counter_get (playlist_count st) pid"
    using current tracked by simp
  have ids: "[] = collect 0 (tracks_items tracks) 0 []"
    by (simp add: collect_take)
  from remove_evict [OF fetch a n b ids refl]
  show ?thesis
    by (cases "user_playlist_remove_all_occurrences_of_tracks sp pid []";
        cases "user_playlist_add_tracks sp pid ts")
       (simp_all add: add_def Let_def split: exn.splits)
qed

text \<open>
  The theorem at work, on a playlist without a cached count: a fresh object adds a batch of
  exactly \<open>SONG_LIMIT\<close> tracks.
\<close>

theorem add_at_limit_removes_nothing_witness:
  "user_playlist service ''p'' = Inr first_page \<and>
   counter_get (playlist_count fresh) ''p'' + int (length (batch 10000)) = SONG_LIMIT \<and>
   0 \<le> counter_get (playlist_count fresh) ''p'' \<and>
   (\<exists>res st'. add service ''p'' (batch 10000) fresh = Some (res, st') \<and>
      (trace st' = trace fresh @ [Call_user_playlist ''p'', Call_remove ''p'' []] \<or>
       trace st' = trace fresh @ [Call_user_playlist ''p'', Call_remove ''p'' [],
                                  Call_add_tracks ''p'' (batch 10000)]))"
proof -
  have h1: "user_playlist service ''p'' = Inr first_page" by (simp add: service_def)
  have h2: "counter_get (playlist_count fresh) ''p'' + int (length (batch 10000)) = SONG_LIMIT"
    by (simp add: fresh_def counter_get_def SONG_LIMIT_def)
  have h3: "0 \<le> counter_get (playlist_count fresh) ''p''"
    by (simp add: fresh_def counter_get_def)
  from add_at_limit_removes_nothing [OF h1 refl h2 h3] h1 h2 h3 show ?thesis by blast
qed

end
